theory Spec2Isabelle
  imports Main "HOL-Library.Char_ord" "HOL-Library.List_Lexorder" "HOL-Library.Multiset"
begin

section \<open>Keephy Categories Service\<close>

text \<open>
  A shallow embedding of \<^verbatim>\<open>src/index.js\<close>: the category schema, the Mongoose model
  operations the route handlers call, and the six route handlers under
  \<^verbatim>\<open>/api/categories\<close>.

  The collection is a list of documents in insertion order. Each handler takes the
  collection (and, where it reads them, the clock and the identifier the driver
  generates) and returns the collection afterwards together with the HTTP response.
  An exception thrown inside a handler's \<^verbatim>\<open>try\<close> block is a value \<open>Inl e\<close>; the
  \<^verbatim>\<open>catch\<close> block turns it into the handler's 500 response. The exceptions modelled are
  the ones the schema itself produces: a cast failure of an ObjectId, a failed
  \<^verbatim>\<open>required\<close> validation on \<^verbatim>\<open>save()\<close>, and a violation of a unique index. The connection
  to the database is taken to be up.

  Request bodies are modelled after JSON parsing, with every field either absent
  (\<open>None\<close>, the JavaScript \<^verbatim>\<open>undefined\<close>) or a value of the type the schema declares.
  Path and query parameters are raw strings. Timestamps are milliseconds, as
  \<^verbatim>\<open>Date.now()\<close> counts them. The probes \<^verbatim>\<open>/health\<close> and \<^verbatim>\<open>/ready\<close> and the handler of
  unmatched routes never touch the collection and are left out.
\<close>

subsection \<open>The schema (index.js, lines 36-48)\<close>

type_synonym objectId = nat

record category =
  c_id :: objectId
  name :: string
  description :: "string option"
  icon :: "string option"
  color :: "string option"
  isActive :: bool
  parentId :: "objectId option"
  subcategories :: "objectId list"
  businessId :: "objectId option"
  tenantId :: "string option"
  createdAt :: nat
  updatedAt :: nat

type_synonym collection = "category list"

datatype store_error = CastError | ValidationError | DuplicateKey

text \<open>
  Casting a string to an ObjectId succeeds on 24 hexadecimal digits and gives the
  96-bit number they spell; upper and lower case spell the same identifier. Any
  other string raises a CastError.
\<close>

definition isHexDigit :: "char \<Rightarrow> bool" where
  "isHexDigit c =
     (let n = (of_char c :: nat)
      in (48 \<le> n \<and> n \<le> 57) \<or> (65 \<le> n \<and> n \<le> 70) \<or> (97 \<le> n \<and> n \<le> 102))"

definition hexValue :: "char \<Rightarrow> nat" where
  "hexValue c =
     (let n = (of_char c :: nat)
      in if n \<le> 57 then n - 48 else if n \<le> 70 then n - 55 else n - 87)"

definition castObjectId :: "string \<Rightarrow> store_error + objectId" where
  "castObjectId s =
     (if length s = 24 \<and> list_all isHexDigit s
      then Inr (foldl (\<lambda>a c. 16 * a + hexValue c) 0 s)
      else Inl CastError)"

definition castOpt :: "string option \<Rightarrow> store_error + objectId option" where
  "castOpt v =
     (case v of
        None \<Rightarrow> Inr None
      | Some s \<Rightarrow> (case castObjectId s of Inl e \<Rightarrow> Inl e | Inr i \<Rightarrow> Inr (Some i)))"

text \<open>JavaScript truthiness of a value that is either \<^verbatim>\<open>undefined\<close> or a string.\<close>

definition truthy :: "string option \<Rightarrow> bool" where
  "truthy v = (case v of None \<Rightarrow> False | Some s \<Rightarrow> s \<noteq> [])"

subsection \<open>The model operations\<close>

fun findOne :: "collection \<Rightarrow> objectId \<Rightarrow> category option" where
  "findOne [] i = None"
| "findOne (c # cs) i = (if c_id c = i then Some c else findOne cs i)"

fun updateOne :: "objectId \<Rightarrow> (category \<Rightarrow> category) \<Rightarrow> collection \<Rightarrow> collection" where
  "updateOne i f [] = []"
| "updateOne i f (c # cs) = (if c_id c = i then f c # cs else c # updateOne i f cs)"

text \<open>\<^verbatim>\<open>Category.findById(id)\<close>: the identifier is cast first.\<close>

definition Category_findById :: "collection \<Rightarrow> string \<Rightarrow> store_error + category option" where
  "Category_findById db ident =
     (case castObjectId ident of Inl e \<Rightarrow> Inl e | Inr i \<Rightarrow> Inr (findOne db i))"

text \<open>
  \<^verbatim>\<open>Category.find(filter)\<close>: every key of the filter is an equality condition;
  \<^verbatim>\<open>businessId\<close> and \<^verbatim>\<open>parentId\<close> are cast to ObjectId, \<^verbatim>\<open>tenantId\<close> is a string.
\<close>

record query_filter =
  f_isActive :: "bool option"
  f_businessId :: "string option"
  f_tenantId :: "string option"
  f_parentId :: "string option"

definition holds :: "'a option \<Rightarrow> 'a \<Rightarrow> bool" where
  "holds cond v = (case cond of None \<Rightarrow> True | Some w \<Rightarrow> v = w)"

definition Category_find :: "collection \<Rightarrow> query_filter \<Rightarrow> store_error + category list" where
  "Category_find db f =
     (case castOpt (f_businessId f) of
        Inl e \<Rightarrow> Inl e
      | Inr b \<Rightarrow>
         (case castOpt (f_parentId f) of
            Inl e \<Rightarrow> Inl e
          | Inr p \<Rightarrow>
              Inr (filter (\<lambda>c. holds (f_isActive f) (isActive c)
                              \<and> holds (map_option Some b) (businessId c)
                              \<and> holds (map_option Some (f_tenantId f)) (tenantId c)
                              \<and> holds (map_option Some p) (parentId c)) db)))"

text \<open>
  \<^verbatim>\<open>.populate('subcategories')\<close> replaces the identifiers of the array by the documents
  they resolve to, in the array's order; an identifier that resolves to nothing is
  dropped. The children themselves are not populated.
\<close>

record populated =
  doc :: category
  children :: "category list"

definition populate :: "collection \<Rightarrow> category \<Rightarrow> populated" where
  "populate db c = \<lparr>doc = c, children = List.map_filter (findOne db) (subcategories c)\<rparr>"

text \<open>\<^verbatim>\<open>.sort({ name: 1 })\<close>: ascending by name, strings compared byte by byte.\<close>

definition sortByName :: "category list \<Rightarrow> category list" where
  "sortByName cs = sort_key name cs"

text \<open>
  \<^verbatim>\<open>save()\<close> runs the schema's validation first: \<^verbatim>\<open>name\<close> is \<^verbatim>\<open>required\<close>, which for a
  string means non-empty. A new document is then inserted, under the unique indexes on
  \<^verbatim>\<open>_id\<close> and \<^verbatim>\<open>name\<close>; a loaded document has its modified paths written back, and the
  only path a handler modifies before \<^verbatim>\<open>save()\<close> is \<^verbatim>\<open>isActive\<close>.
\<close>

definition validate :: "category \<Rightarrow> store_error + category" where
  "validate c = (if name c = [] then Inl ValidationError else Inr c)"

definition save_new :: "collection \<Rightarrow> category \<Rightarrow> store_error + collection" where
  "save_new db c =
     (case validate c of
        Inl e \<Rightarrow> Inl e
      | Inr _ \<Rightarrow>
          if list_ex (\<lambda>d. c_id d = c_id c \<or> name d = name c) db then Inl DuplicateKey
          else Inr (db @ [c]))"

definition save_loaded :: "collection \<Rightarrow> category \<Rightarrow> store_error + collection" where
  "save_loaded db c =
     (case validate c of
        Inl e \<Rightarrow> Inl e
      | Inr _ \<Rightarrow> Inr (updateOne (c_id c) (\<lambda>d. d\<lparr>isActive := isActive c\<rparr>) db))"

text \<open>
  \<^verbatim>\<open>Category.findByIdAndUpdate(id, update)\<close>: casts the identifier, applies the update to
  the document it finds, and returns the document (after the update, which is all the
  handlers read) or null. Validators are not run on updates; the unique index on
  \<^verbatim>\<open>name\<close> is enforced by the database when the update gives the document a new name.
\<close>

definition Category_findByIdAndUpdate ::
  "collection \<Rightarrow> string \<Rightarrow> (category \<Rightarrow> category) \<Rightarrow> store_error + (collection \<times> category option)" where
  "Category_findByIdAndUpdate db ident upd =
     (case castObjectId ident of
        Inl e \<Rightarrow> Inl e
      | Inr i \<Rightarrow>
         (case findOne db i of
            None \<Rightarrow> Inr (db, None)
          | Some c \<Rightarrow>
              if name (upd c) \<noteq> name c \<and> list_ex (\<lambda>d. c_id d \<noteq> i \<and> name d = name (upd c)) db
              then Inl DuplicateKey
              else Inr (updateOne i upd db, Some (upd c))))"

text \<open>\<^verbatim>\<open>$addToSet\<close> on an array.\<close>

definition addToSet :: "objectId list \<Rightarrow> objectId \<Rightarrow> objectId list" where
  "addToSet xs x = (if x \<in> set xs then xs else xs @ [x])"

subsection \<open>Requests and responses\<close>

record list_query =
  q_businessId :: "string option"
  q_tenantId :: "string option"
  q_parentId :: "string option"

record create_body =
  cb_name :: "string option"
  cb_description :: "string option"
  cb_icon :: "string option"
  cb_color :: "string option"
  cb_parentId :: "string option"
  cb_businessId :: "string option"
  cb_tenantId :: "string option"

record update_body =
  ub_name :: "string option"
  ub_description :: "string option"
  ub_icon :: "string option"
  ub_color :: "string option"
  ub_isActive :: "bool option"

text \<open>
  The JSON envelope: \<open>Listing\<close> is \<^verbatim>\<open>{success: true, data, count}\<close> with populated
  documents, \<open>Children\<close> the same with plain documents, \<open>Populated\<close> and \<open>Document\<close> are
  \<^verbatim>\<open>{success: true, data}\<close>, \<open>Message\<close> is \<^verbatim>\<open>{success: true, message}\<close> and \<open>Failure\<close> is
  \<^verbatim>\<open>{success: false, error}\<close>.
\<close>

datatype payload =
    Listing "populated list" nat
  | Children "category list" nat
  | Populated populated
  | Document category
  | Message string
  | Failure string

datatype response = Response (status: nat) (payload: payload)

subsection \<open>The route handlers\<close>

text \<open>\<^verbatim>\<open>GET /api/categories\<close> (lines 72-97).\<close>

definition listFilter :: "list_query \<Rightarrow> query_filter" where
  "listFilter q =
     (let filter0 = \<lparr>f_isActive = Some True, f_businessId = None, f_tenantId = None, f_parentId = None\<rparr>;
          filter1 = (if truthy (q_businessId q) then filter0\<lparr>f_businessId := q_businessId q\<rparr> else filter0);
          filter2 = (if truthy (q_tenantId q) then filter1\<lparr>f_tenantId := q_tenantId q\<rparr> else filter1);
          filter3 = (if truthy (q_parentId q) then filter2\<lparr>f_parentId := q_parentId q\<rparr> else filter2)
      in filter3)"

definition listCategories :: "collection \<Rightarrow> list_query \<Rightarrow> response" where
  "listCategories db q =
     (case Category_find db (listFilter q) of
        Inl e \<Rightarrow> Response 500 (Failure ''Failed to fetch categories'')
      | Inr found \<Rightarrow>
          (let categories = map (populate db) (sortByName found)
           in Response 200 (Listing categories (length categories))))"

text \<open>\<^verbatim>\<open>GET /api/categories/:id\<close> (lines 100-123).\<close>

definition getCategory :: "collection \<Rightarrow> string \<Rightarrow> response" where
  "getCategory db ident =
     (case Category_findById db ident of
        Inl e \<Rightarrow> Response 500 (Failure ''Failed to fetch category'')
      | Inr None \<Rightarrow> Response 404 (Failure ''Category not found'')
      | Inr (Some c) \<Rightarrow> Response 200 (Populated (populate db c)))"

text \<open>\<^verbatim>\<open>GET /api/categories/:id/subcategories\<close> (lines 126-145).\<close>

definition getSubcategories :: "collection \<Rightarrow> string \<Rightarrow> response" where
  "getSubcategories db ident =
     (case Category_find db
             \<lparr>f_isActive = Some True, f_businessId = None, f_tenantId = None, f_parentId = Some ident\<rparr> of
        Inl e \<Rightarrow> Response 500 (Failure ''Failed to fetch subcategories'')
      | Inr found \<Rightarrow>
          (let subs = sortByName found in Response 200 (Children subs (length subs))))"

text \<open>
  \<^verbatim>\<open>POST /api/categories\<close> (lines 148-189). \<open>nid\<close> is the \<^verbatim>\<open>_id\<close> generated for the new
  document. \<open>newCategory\<close> is \<^verbatim>\<open>new Category({...})\<close> with the schema's defaults. Each of
  the two timestamp defaults calls \<^verbatim>\<open>Date.now\<close> for itself, in the order of the schema:
  \<open>now\<close> is the reading \<^verbatim>\<open>createdAt\<close> gets and \<open>later\<close> the one \<^verbatim>\<open>updatedAt\<close> gets. A value
  that cannot be cast makes the following \<^verbatim>\<open>save()\<close> fail, before anything is written.
\<close>

definition newCategory ::
  "nat \<Rightarrow> nat \<Rightarrow> objectId \<Rightarrow> string \<Rightarrow> create_body \<Rightarrow> store_error + category" where
  "newCategory now later nid nm b =
     (case castOpt (if truthy (cb_parentId b) then cb_parentId b else None) of
        Inl e \<Rightarrow> Inl e
      | Inr p \<Rightarrow>
         (case castOpt (cb_businessId b) of
            Inl e \<Rightarrow> Inl e
          | Inr bz \<Rightarrow>
              Inr \<lparr>c_id = nid, name = nm, description = cb_description b, icon = cb_icon b,
                   color = cb_color b, isActive = True, parentId = p, subcategories = [],
                   businessId = bz, tenantId = cb_tenantId b, createdAt = now, updatedAt = later\<rparr>))"

definition linkToParent :: "collection \<Rightarrow> create_body \<Rightarrow> category \<Rightarrow> store_error + collection" where
  "linkToParent db b c =
     (if truthy (cb_parentId b)
      then (case Category_findByIdAndUpdate db (the (cb_parentId b))
                   (\<lambda>p. p\<lparr>subcategories := addToSet (subcategories p) (c_id c)\<rparr>) of
              Inl e \<Rightarrow> Inl e
            | Inr (db', _) \<Rightarrow> Inr db')
      else Inr db)"

definition createCategory ::
  "nat \<Rightarrow> nat \<Rightarrow> objectId \<Rightarrow> collection \<Rightarrow> create_body \<Rightarrow> collection \<times> response" where
  "createCategory now later nid db b =
     (if \<not> truthy (cb_name b) then (db, Response 400 (Failure ''Category name is required''))
      else
        (case newCategory now later nid (the (cb_name b)) b of
           Inl e \<Rightarrow> (db, Response 500 (Failure ''Failed to create category''))
         | Inr c \<Rightarrow>
            (case save_new db c of
               Inl e \<Rightarrow> (db, Response 500 (Failure ''Failed to create category''))
             | Inr db1 \<Rightarrow>
                (case linkToParent db1 b c of
                   Inl e \<Rightarrow> (db1, Response 500 (Failure ''Failed to create category''))
                 | Inr db2 \<Rightarrow> (db2, Response 201 (Document c))))))"

text \<open>
  \<^verbatim>\<open>PUT /api/categories/:id\<close> (lines 192-227). The update object is
  \<^verbatim>\<open>{name, description, icon, color, isActive, updatedAt: new Date()}\<close>; Mongoose removes
  the keys whose value is \<^verbatim>\<open>undefined\<close> from an update before sending it, so an absent
  body field leaves the stored value as it is.
\<close>

definition setField :: "'a option \<Rightarrow> 'a \<Rightarrow> 'a" where
  "setField v old = (case v of None \<Rightarrow> old | Some w \<Rightarrow> w)"

definition setOpt :: "'a option \<Rightarrow> 'a option \<Rightarrow> 'a option" where
  "setOpt v old = (case v of None \<Rightarrow> old | Some w \<Rightarrow> Some w)"

definition applyUpdate :: "nat \<Rightarrow> update_body \<Rightarrow> category \<Rightarrow> category" where
  "applyUpdate now b c =
     c\<lparr>name := setField (ub_name b) (name c),
       description := setOpt (ub_description b) (description c),
       icon := setOpt (ub_icon b) (icon c),
       color := setOpt (ub_color b) (color c),
       isActive := setField (ub_isActive b) (isActive c),
       updatedAt := now\<rparr>"

definition updateCategory :: "nat \<Rightarrow> collection \<Rightarrow> string \<Rightarrow> update_body \<Rightarrow> collection \<times> response" where
  "updateCategory now db ident b =
     (case Category_findByIdAndUpdate db ident (applyUpdate now b) of
        Inl e \<Rightarrow> (db, Response 500 (Failure ''Failed to update category''))
      | Inr (db', None) \<Rightarrow> (db', Response 404 (Failure ''Category not found''))
      | Inr (db', Some c) \<Rightarrow> (db', Response 200 (Document c)))"

text \<open>\<^verbatim>\<open>DELETE /api/categories/:id\<close> (lines 230-256).\<close>

definition deleteCategory :: "collection \<Rightarrow> string \<Rightarrow> collection \<times> response" where
  "deleteCategory db ident =
     (case Category_findById db ident of
        Inl e \<Rightarrow> (db, Response 500 (Failure ''Failed to delete category''))
      | Inr None \<Rightarrow> (db, Response 404 (Failure ''Category not found''))
      | Inr (Some c) \<Rightarrow>
          (case save_loaded db (c\<lparr>isActive := False\<rparr>) of
             Inl e \<Rightarrow> (db, Response 500 (Failure ''Failed to delete category''))
           | Inr db' \<Rightarrow> (db', Response 200 (Message ''Category deleted successfully''))))"

subsection \<open>The service as a whole\<close>

datatype request =
    ListCategories list_query
  | GetCategory string
  | GetSubcategories string
  | CreateCategory create_body
  | UpdateCategory string update_body
  | DeleteCategory string

text \<open>
  One request served at time \<open>now\<close>, with \<open>later\<close> the second reading of the clock a
  create request takes and \<open>nid\<close> the identifier the driver would give a document
  created by it.
\<close>

fun handle :: "nat \<Rightarrow> nat \<Rightarrow> objectId \<Rightarrow> request \<Rightarrow> collection \<Rightarrow> collection \<times> response" where
  "handle now later nid (ListCategories q) db = (db, listCategories db q)"
| "handle now later nid (GetCategory ident) db = (db, getCategory db ident)"
| "handle now later nid (GetSubcategories ident) db = (db, getSubcategories db ident)"
| "handle now later nid (CreateCategory b) db = createCategory now later nid db b"
| "handle now later nid (UpdateCategory ident b) db = updateCategory now db ident b"
| "handle now later nid (DeleteCategory ident) db = deleteCategory db ident"

fun run :: "(nat \<times> nat \<times> objectId \<times> request) list \<Rightarrow> collection \<Rightarrow> collection" where
  "run [] db = db"
| "run ((now, later, nid, r) # es) db = run es (fst (handle now later nid r db))"

subsection \<open>Predicates of the specification\<close>

text \<open>
  The listing condition in the specification's words: \<^verbatim>\<open>isActive = true\<close>, and an
  exact match on every filter the request supplies.
\<close>

definition matchesId :: "string option \<Rightarrow> objectId option \<Rightarrow> bool" where
  "matchesId v x =
     (case v of
        None \<Rightarrow> True
      | Some s \<Rightarrow> (case castObjectId s of Inl e \<Rightarrow> False | Inr i \<Rightarrow> x = Some i))"

definition matchesText :: "string option \<Rightarrow> string option \<Rightarrow> bool" where
  "matchesText v x = (case v of None \<Rightarrow> True | Some s \<Rightarrow> x = Some s)"

definition spec_list_match :: "list_query \<Rightarrow> category \<Rightarrow> bool" where
  "spec_list_match q c =
     (isActive c \<and> matchesId (q_businessId q) (businessId c)
      \<and> matchesText (q_tenantId q) (tenantId c)
      \<and> matchesId (q_parentId q) (parentId c))"

text \<open>The same condition with the filters whose value is the empty string left out.\<close>

definition dropEmpty :: "string option \<Rightarrow> string option" where
  "dropEmpty v = (if truthy v then v else None)"

definition nonempty_list_match :: "list_query \<Rightarrow> category \<Rightarrow> bool" where
  "nonempty_list_match q c =
     spec_list_match \<lparr>q_businessId = dropEmpty (q_businessId q),
                      q_tenantId = dropEmpty (q_tenantId q),
                      q_parentId = dropEmpty (q_parentId q)\<rparr> c"

text \<open>A filter value the database can cast: absent, empty (it is dropped), or an ObjectId.\<close>

definition castable :: "string option \<Rightarrow> bool" where
  "castable v = (case castOpt (dropEmpty v) of Inl e \<Rightarrow> False | Inr i \<Rightarrow> True)"

text \<open>
  A populated document shows the children its \<^verbatim>\<open>subcategories\<close> resolve to: the
  identifiers that resolve, in order, each as the stored document.
\<close>

definition expanded :: "collection \<Rightarrow> populated \<Rightarrow> bool" where
  "expanded db r =
     (map c_id (children r) = filter (\<lambda>j. findOne db j \<noteq> None) (subcategories (doc r))
      \<and> list_all (\<lambda>d. findOne db (c_id d) = Some d) (children r))"

text \<open>
  The update gives document \<open>i\<close> (now \<open>c\<close>) a new name that another document holds.
\<close>

definition nameTaken :: "collection \<Rightarrow> objectId \<Rightarrow> category \<Rightarrow> update_body \<Rightarrow> bool" where
  "nameTaken db i c b =
     (case ub_name b of None \<Rightarrow> False
      | Some n \<Rightarrow> n \<noteq> name c \<and> list_ex (\<lambda>d. c_id d \<noteq> i \<and> name d = n) db)"


text \<open>
  Every stored modification time is at most \<open>t\<close>; a run whose clock readings never
  decrease, starting at \<open>t\<close>; and the last reading of a run.
\<close>

definition stamped :: "nat \<Rightarrow> collection \<Rightarrow> bool" where
  "stamped t db = list_all (\<lambda>c. updatedAt c \<le> t) db"

fun ascending :: "nat \<Rightarrow> (nat \<times> nat \<times> objectId \<times> request) list \<Rightarrow> bool" where
  "ascending t [] = True"
| "ascending t ((now, later, nid, r) # es) = (t \<le> now \<and> now \<le> later \<and> ascending later es)"

fun lastTime :: "nat \<Rightarrow> (nat \<times> nat \<times> objectId \<times> request) list \<Rightarrow> nat" where
  "lastTime t [] = t"
| "lastTime t ((now, later, nid, r) # es) = lastTime later es"

subsection \<open>Sample data\<close>

definition sampleId1 :: string where
  "sampleId1 = ''000000000000000000000001''"

definition sampleId2 :: string where
  "sampleId2 = ''000000000000000000000002''"

definition noQuery :: list_query where
  "noQuery = \<lparr>q_businessId = None, q_tenantId = None, q_parentId = None\<rparr>"

definition noUpdate :: update_body where
  "noUpdate = \<lparr>ub_name = None, ub_description = None, ub_icon = None, ub_color = None,
               ub_isActive = None\<rparr>"

definition foodBody :: create_body where
  "foodBody = \<lparr>cb_name = Some ''Food'', cb_description = None, cb_icon = None, cb_color = None,
               cb_parentId = None, cb_businessId = None, cb_tenantId = Some ''t1''\<rparr>"

definition pizzaBody :: create_body where
  "pizzaBody = \<lparr>cb_name = Some ''Pizza'', cb_description = None, cb_icon = None, cb_color = None,
                cb_parentId = Some sampleId1, cb_businessId = None, cb_tenantId = Some ''t1''\<rparr>"

definition foodDoc :: category where
  "foodDoc = \<lparr>c_id = 1, name = ''Food'', description = None, icon = None, color = None,
              isActive = True, parentId = None, subcategories = [], businessId = None,
              tenantId = Some ''t1'', createdAt = 1000, updatedAt = 1000\<rparr>"

definition pizzaDoc :: category where
  "pizzaDoc = \<lparr>c_id = 2, name = ''Pizza'', description = None, icon = None, color = None,
               isActive = True, parentId = Some 1, subcategories = [], businessId = None,
               tenantId = Some ''t1'', createdAt = 2000, updatedAt = 2000\<rparr>"

section \<open>Properties\<close>

subsection \<open>Lookup and update in the collection\<close>

lemma findOne_Some: "findOne db i = Some c \<Longrightarrow> c_id c = i \<and> c \<in> set db"
  by (induction db) (auto split: if_splits)

lemma findOne_None: "findOne db i = None \<longleftrightarrow> i \<notin> c_id ` set db"
  by (induction db) auto

lemma findOne_append:
  "findOne (db @ [c]) i =
     (case findOne db i of Some d \<Rightarrow> Some d | None \<Rightarrow> if c_id c = i then Some c else None)"
  by (induction db) auto

lemma findOne_updateOne:
  "(\<And>c. c_id (f c) = c_id c) \<Longrightarrow>
   findOne (updateOne i f db) j = (if j = i then map_option f (findOne db i) else findOne db j)"
  by (induction db) auto

lemma updateOne_absent: "findOne db i = None \<Longrightarrow> updateOne i f db = db"
  by (induction db) (auto split: if_splits)

lemma map_id_updateOne:
  "(\<And>c. c_id (f c) = c_id c) \<Longrightarrow> map c_id (updateOne i f db) = map c_id db"
  by (induction db) auto

lemma length_updateOne: "length (updateOne i f db) = length db"
  by (induction db) auto

lemma sample_ids:
  "castObjectId sampleId1 = Inr 1" "castObjectId sampleId2 = Inr 2"
  by (simp_all add: sampleId1_def sampleId2_def castObjectId_def isHexDigit_def hexValue_def)

lemma sample_nonempty: "sampleId1 \<noteq> []" "sampleId2 \<noteq> []"
  by (simp_all add: sampleId1_def sampleId2_def)

subsection \<open>Populating and filtering\<close>

lemma map_filter_findOne_ids:
  "map c_id (List.map_filter (findOne db) xs) = filter (\<lambda>j. findOne db j \<noteq> None) xs"
  by (induction xs) (auto simp: List.map_filter_simps dest: findOne_Some split: option.splits)

lemma map_filter_findOne_docs:
  "list_all (\<lambda>d. findOne db (c_id d) = Some d) (List.map_filter (findOne db) xs)"
  by (induction xs) (auto simp: List.map_filter_simps dest: findOne_Some split: option.splits)

lemma populate_expanded: "expanded db (populate db c)"
  by (simp add: expanded_def populate_def map_filter_findOne_ids map_filter_findOne_docs)

lemma doc_populate: "doc (populate db c) = c"
  by (simp add: populate_def)

lemma find_listFilter:
  assumes "castable (q_businessId q)" and "castable (q_parentId q)"
  shows "Category_find db (listFilter q) = Inr (filter (nonempty_list_match q) db)"
proof -
  obtain b where b: "castOpt (dropEmpty (q_businessId q)) = Inr b"
    using assms(1) by (auto simp: castable_def split: sum.splits)
  obtain p where p: "castOpt (dropEmpty (q_parentId q)) = Inr p"
    using assms(2) by (auto simp: castable_def split: sum.splits)
  have fb: "f_businessId (listFilter q) = dropEmpty (q_businessId q)"
    and ft: "f_tenantId (listFilter q) = dropEmpty (q_tenantId q)"
    and fp: "f_parentId (listFilter q) = dropEmpty (q_parentId q)"
    and fa: "f_isActive (listFilter q) = Some True"
    by (simp_all add: listFilter_def dropEmpty_def Let_def)
  have mb: "matchesId (dropEmpty (q_businessId q)) x = holds (map_option Some b) x" for x
    using b by (auto simp: matchesId_def castOpt_def holds_def split: option.splits sum.splits)
  have mp: "matchesId (dropEmpty (q_parentId q)) x = holds (map_option Some p) x" for x
    using p by (auto simp: matchesId_def castOpt_def holds_def split: option.splits sum.splits)
  have mt: "matchesText v x = holds (map_option Some v) x" for v x
    by (auto simp: matchesText_def holds_def split: option.splits)
  have "nonempty_list_match q =
          (\<lambda>c. holds (Some True) (isActive c) \<and> holds (map_option Some b) (businessId c)
           \<and> holds (map_option Some (dropEmpty (q_tenantId q))) (tenantId c)
           \<and> holds (map_option Some p) (parentId c))"
    unfolding fun_eq_iff
    by (simp add: nonempty_list_match_def spec_list_match_def mb mp mt) (simp add: holds_def)
  then show ?thesis
    by (simp add: Category_find_def fb ft fp fa b p)
qed

lemmas eval_list =
  listCategories_def listFilter_def Category_find_def castOpt_def truthy_def holds_def
  sortByName_def populate_def List.map_filter_simps noQuery_def foodDoc_def pizzaDoc_def

subsection \<open>Listing\<close>

text \<open>
  C1 (as amended). For every list request whose non-empty \<^verbatim>\<open>businessId\<close> and \<^verbatim>\<open>parentId\<close>
  filters are ObjectIds, the response is 200 and its data are exactly the stored
  categories with \<^verbatim>\<open>isActive = true\<close> that match every supplied non-empty filter, each
  once, in ascending order of name, each with its \<^verbatim>\<open>subcategories\<close> expanded one level
  into the stored child documents; \<^verbatim>\<open>count\<close> is their number.
\<close>

theorem list_result:
  assumes "castable (q_businessId q)" and "castable (q_parentId q)"
  shows "\<exists>rs. listCategories db q = Response 200 (Listing rs (length rs))
           \<and> mset (map doc rs) = mset (filter (nonempty_list_match q) db)
           \<and> sorted (map (\<lambda>r. name (doc r)) rs)
           \<and> list_all (expanded db) rs"
proof -
  let ?found = "filter (nonempty_list_match q) db"
  let ?rs = "map (populate db) (sortByName ?found)"
  have "doc \<circ> populate db = id"
    by (simp add: fun_eq_iff doc_populate)
  then have d: "map doc ?rs = sortByName ?found"
    by (simp only: map_map list.map_id)
  have 1: "listCategories db q = Response 200 (Listing ?rs (length ?rs))"
    by (simp add: listCategories_def find_listFilter [OF assms] Let_def)
  have 2: "mset (map doc ?rs) = mset ?found"
    unfolding d by (simp add: sortByName_def)
  have "(\<lambda>r. name (doc r)) \<circ> populate db = name"
    by (simp add: fun_eq_iff doc_populate)
  then have n: "map (\<lambda>r. name (doc r)) ?rs = map name (sortByName ?found)"
    by (simp only: map_map)
  have 3: "sorted (map (\<lambda>r. name (doc r)) ?rs)"
    unfolding n by (simp add: sortByName_def)
  have 4: "list_all (expanded db) ?rs"
    by (simp add: list_all_iff populate_expanded)
  from 1 2 3 4 show ?thesis by blast
qed

theorem list_result_witness:
  "castable (q_businessId (noQuery\<lparr>q_tenantId := Some ''t1''\<rparr>))
   \<and> castable (q_parentId (noQuery\<lparr>q_tenantId := Some ''t1''\<rparr>))
   \<and> (\<exists>rs. listCategories [pizzaDoc, foodDoc\<lparr>subcategories := [2]\<rparr>]
               (noQuery\<lparr>q_tenantId := Some ''t1''\<rparr>)
             = Response 200 (Listing rs (length rs))
           \<and> mset (map doc rs)
             = mset (filter (nonempty_list_match (noQuery\<lparr>q_tenantId := Some ''t1''\<rparr>))
                        [pizzaDoc, foodDoc\<lparr>subcategories := [2]\<rparr>])
           \<and> sorted (map (\<lambda>r. name (doc r)) rs)
           \<and> list_all (expanded [pizzaDoc, foodDoc\<lparr>subcategories := [2]\<rparr>]) rs)
   \<and> listCategories [pizzaDoc, foodDoc\<lparr>subcategories := [2]\<rparr>]
        (noQuery\<lparr>q_tenantId := Some ''t1''\<rparr>)
      = Response 200 (Listing [\<lparr>doc = foodDoc\<lparr>subcategories := [2]\<rparr>, children = [pizzaDoc]\<rparr>,
                               \<lparr>doc = pizzaDoc, children = []\<rparr>] 2)"
proof -
  have h1: "castable (q_businessId (noQuery\<lparr>q_tenantId := Some ''t1''\<rparr>))"
    and h2: "castable (q_parentId (noQuery\<lparr>q_tenantId := Some ''t1''\<rparr>))"
    by (simp_all add: castable_def castOpt_def dropEmpty_def truthy_def noQuery_def)
  have ev: "listCategories [pizzaDoc, foodDoc\<lparr>subcategories := [2]\<rparr>]
              (noQuery\<lparr>q_tenantId := Some ''t1''\<rparr>)
            = Response 200 (Listing [\<lparr>doc = foodDoc\<lparr>subcategories := [2]\<rparr>, children = [pizzaDoc]\<rparr>,
                                     \<lparr>doc = pizzaDoc, children = []\<rparr>] 2)"
    by (simp add: eval_list)
  from h1 h2 ev list_result [OF h1 h2, of "[pizzaDoc, foodDoc\<lparr>subcategories := [2]\<rparr>]"]
  show ?thesis by blast
qed

text \<open>
  The claim as written fails on a filter supplied as the empty string: the listing
  returns a category whose \<^verbatim>\<open>tenantId\<close> is not the supplied one. It also fails on a
  \<^verbatim>\<open>businessId\<close> that is not an ObjectId: the query throws and there is no result set.
\<close>

theorem list_empty_filter_counterexample:
  "listCategories [foodDoc] (noQuery\<lparr>q_tenantId := Some []\<rparr>)
     = Response 200 (Listing [\<lparr>doc = foodDoc, children = []\<rparr>] 1)
   \<and> \<not> spec_list_match (noQuery\<lparr>q_tenantId := Some []\<rparr>) foodDoc
   \<and> listCategories [foodDoc] (noQuery\<lparr>q_businessId := Some ''abc''\<rparr>)
     = Response 500 (Failure ''Failed to fetch categories'')"
  by (simp add: eval_list spec_list_match_def matchesText_def castObjectId_def)

text \<open>
  C10. A filter parameter supplied as the empty string is ignored: the listing is the
  one the request without that parameter gets.
\<close>

theorem list_ignores_empty_filters:
  "listCategories db (q\<lparr>q_businessId := Some []\<rparr>) = listCategories db (q\<lparr>q_businessId := None\<rparr>)
   \<and> listCategories db (q\<lparr>q_tenantId := Some []\<rparr>) = listCategories db (q\<lparr>q_tenantId := None\<rparr>)
   \<and> listCategories db (q\<lparr>q_parentId := Some []\<rparr>) = listCategories db (q\<lparr>q_parentId := None\<rparr>)"
  by (simp add: listCategories_def listFilter_def truthy_def Let_def)

theorem list_ignores_empty_filters_witness:
  "listCategories [foodDoc, pizzaDoc] (noQuery\<lparr>q_parentId := Some []\<rparr>)
     = Response 200 (Listing [\<lparr>doc = foodDoc, children = []\<rparr>, \<lparr>doc = pizzaDoc, children = []\<rparr>] 2)
   \<and> parentId foodDoc \<noteq> Some 0"
proof -
  have "listCategories [foodDoc, pizzaDoc] (noQuery\<lparr>q_parentId := None\<rparr>)
          = Response 200 (Listing [\<lparr>doc = foodDoc, children = []\<rparr>, \<lparr>doc = pizzaDoc, children = []\<rparr>] 2)"
    by (simp add: eval_list)
  moreover have "parentId foodDoc \<noteq> Some 0"
    by (simp add: foodDoc_def)
  ultimately show ?thesis
    using list_ignores_empty_filters [of "[foodDoc, pizzaDoc]" noQuery] by simp
qed

subsection \<open>Creating\<close>

text \<open>
  C4. A create request without \<^verbatim>\<open>name\<close> is answered with the 400 validation failure, not
  the 500 of a store failure, and the collection is left as it was.
\<close>

theorem create_without_name_rejected:
  "cb_name b = None \<Longrightarrow>
   createCategory now later nid db b = (db, Response 400 (Failure ''Category name is required''))"
  by (simp add: createCategory_def truthy_def)

theorem create_without_name_rejected_witness:
  "cb_name (foodBody\<lparr>cb_name := None\<rparr>) = None
   \<and> createCategory 3000 3000 3 [foodDoc] (foodBody\<lparr>cb_name := None\<rparr>)
     = ([foodDoc], Response 400 (Failure ''Category name is required''))"
  using create_without_name_rejected [of "foodBody\<lparr>cb_name := None\<rparr>" 3000 3000 3 "[foodDoc]"]
  by simp

subsection \<open>Reading one category\<close>

text \<open>
  C2 (as amended). A get request whose identifier resolves to a stored category is
  answered with 200 and that document, its \<^verbatim>\<open>subcategories\<close> expanded one level, whether
  \<^verbatim>\<open>isActive\<close> is true or false. When the identifier is an ObjectId that resolves to
  nothing, the response is the 404 not-found signal.
\<close>

theorem get_result:
  assumes "castObjectId ident = Inr i"
  shows "(\<forall>c. findOne db i = Some c \<longrightarrow>
            (\<exists>kids. getCategory db ident = Response 200 (Populated \<lparr>doc = c, children = kids\<rparr>)
                 \<and> expanded db \<lparr>doc = c, children = kids\<rparr>))
       \<and> (findOne db i = None \<longrightarrow> getCategory db ident = Response 404 (Failure ''Category not found''))"
proof (intro conjI allI impI)
  fix c assume c: "findOne db i = Some c"
  have "getCategory db ident = Response 200 (Populated (populate db c))"
    using assms c by (simp add: getCategory_def Category_findById_def)
  moreover have "populate db c = \<lparr>doc = c, children = children (populate db c)\<rparr>"
    by (simp add: populate_def)
  moreover have "expanded db (populate db c)"
    by (rule populate_expanded)
  ultimately show "\<exists>kids. getCategory db ident = Response 200 (Populated \<lparr>doc = c, children = kids\<rparr>)
                     \<and> expanded db \<lparr>doc = c, children = kids\<rparr>"
    by metis
next
  assume "findOne db i = None"
  then show "getCategory db ident = Response 404 (Failure ''Category not found'')"
    using assms by (simp add: getCategory_def Category_findById_def)
qed

lemmas eval_get = getCategory_def Category_findById_def populate_def List.map_filter_simps
  sample_ids foodDoc_def pizzaDoc_def

theorem get_result_witness:
  "castObjectId sampleId1 = Inr 1
   \<and> findOne [foodDoc\<lparr>isActive := False, subcategories := [2]\<rparr>, pizzaDoc] 1
       = Some (foodDoc\<lparr>isActive := False, subcategories := [2]\<rparr>)
   \<and> (\<exists>kids. getCategory [foodDoc\<lparr>isActive := False, subcategories := [2]\<rparr>, pizzaDoc] sampleId1
                = Response 200 (Populated \<lparr>doc = foodDoc\<lparr>isActive := False, subcategories := [2]\<rparr>,
                                           children = kids\<rparr>)
              \<and> expanded [foodDoc\<lparr>isActive := False, subcategories := [2]\<rparr>, pizzaDoc]
                   \<lparr>doc = foodDoc\<lparr>isActive := False, subcategories := [2]\<rparr>, children = kids\<rparr>)
   \<and> getCategory [foodDoc\<lparr>isActive := False, subcategories := [2]\<rparr>, pizzaDoc] sampleId1
       = Response 200 (Populated \<lparr>doc = foodDoc\<lparr>isActive := False, subcategories := [2]\<rparr>,
                                  children = [pizzaDoc]\<rparr>)
   \<and> castObjectId sampleId2 = Inr 2
   \<and> findOne [foodDoc] 2 = None
   \<and> getCategory [foodDoc] sampleId2 = Response 404 (Failure ''Category not found'')"
proof -
  have f: "findOne [foodDoc\<lparr>isActive := False, subcategories := [2]\<rparr>, pizzaDoc] 1
             = Some (foodDoc\<lparr>isActive := False, subcategories := [2]\<rparr>)"
    by (simp add: foodDoc_def)
  have n: "findOne [foodDoc] 2 = None"
    by (simp add: foodDoc_def)
  have ev: "getCategory [foodDoc\<lparr>isActive := False, subcategories := [2]\<rparr>, pizzaDoc] sampleId1
       = Response 200 (Populated \<lparr>doc = foodDoc\<lparr>isActive := False, subcategories := [2]\<rparr>,
                                  children = [pizzaDoc]\<rparr>)"
    by (simp add: eval_get)
  from f n ev sample_ids
    get_result [OF sample_ids(1), of "[foodDoc\<lparr>isActive := False, subcategories := [2]\<rparr>, pizzaDoc]"]
    get_result [OF sample_ids(2), of "[foodDoc]"]
  show ?thesis by blast
qed

text \<open>
  The claim as written fails on an identifier that is not an ObjectId: it resolves to
  nothing, and the response is the generic failure.
\<close>

theorem get_malformed_id_counterexample:
  "getCategory [] ''abc'' = Response 500 (Failure ''Failed to fetch category'')"
  by (simp add: getCategory_def Category_findById_def castObjectId_def)

subsection \<open>Unknown identifiers\<close>

text \<open>
  C9 (as amended). A get, update or soft-delete request whose identifier is an ObjectId
  that resolves to no stored category is answered with 404, not 500, and leaves the
  collection as it was.
\<close>

theorem unknown_id_not_found:
  assumes "castObjectId ident = Inr i" and "findOne db i = None"
  shows "getCategory db ident = Response 404 (Failure ''Category not found'')
       \<and> updateCategory now db ident b = (db, Response 404 (Failure ''Category not found''))
       \<and> deleteCategory db ident = (db, Response 404 (Failure ''Category not found''))"
  using assms
  by (simp add: getCategory_def updateCategory_def deleteCategory_def Category_findById_def
      Category_findByIdAndUpdate_def)

theorem unknown_id_not_found_witness:
  "castObjectId sampleId2 = Inr 2 \<and> findOne [foodDoc] 2 = None
   \<and> getCategory [foodDoc] sampleId2 = Response 404 (Failure ''Category not found'')
   \<and> updateCategory 5000 [foodDoc] sampleId2 (noUpdate\<lparr>ub_name := Some ''Drinks''\<rparr>)
       = ([foodDoc], Response 404 (Failure ''Category not found''))
   \<and> deleteCategory [foodDoc] sampleId2 = ([foodDoc], Response 404 (Failure ''Category not found''))"
proof -
  have n: "findOne [foodDoc] 2 = None"
    by (simp add: foodDoc_def)
  from n sample_ids(2)
    unknown_id_not_found [OF sample_ids(2) n, of 5000 "noUpdate\<lparr>ub_name := Some ''Drinks''\<rparr>"]
  show ?thesis by blast
qed

text \<open>
  The claim as written fails on identifiers that cannot be cast: the cast throws inside
  the handler and the response is 500.
\<close>

theorem malformed_id_counterexample:
  "getCategory [foodDoc] ''unknown'' = Response 500 (Failure ''Failed to fetch category'')
   \<and> updateCategory 5000 [] ''unknown'' noUpdate = ([], Response 500 (Failure ''Failed to update category''))
   \<and> deleteCategory [] ''unknown'' = ([], Response 500 (Failure ''Failed to delete category''))"
  by (simp add: getCategory_def updateCategory_def deleteCategory_def Category_findById_def
      Category_findByIdAndUpdate_def castObjectId_def)

subsection \<open>Creating with a parent\<close>

lemma castOpt_Some: "castOpt (Some s) = Inr x \<Longrightarrow> \<exists>p. x = Some p \<and> castObjectId s = Inr p"
  by (auto simp: castOpt_def split: sum.splits)

lemma newCategory_fields:
  assumes "newCategory now later nid nm b = Inr c"
  shows "c_id c = nid \<and> name c = nm \<and> description c = cb_description b \<and> icon c = cb_icon b
       \<and> color c = cb_color b \<and> tenantId c = cb_tenantId b \<and> isActive c
       \<and> subcategories c = [] \<and> createdAt c = now \<and> updatedAt c = later
       \<and> castOpt (if truthy (cb_parentId b) then cb_parentId b else None) = Inr (parentId c)
       \<and> castOpt (cb_businessId b) = Inr (businessId c)"
  using assms by (auto simp: newCategory_def split: sum.splits)

lemma save_new_Inr:
  "save_new db c = Inr db1 \<Longrightarrow>
     db1 = db @ [c] \<and> name c \<noteq> [] \<and> findOne db (c_id c) = None \<and> name c \<notin> name ` set db"
  by (auto simp: save_new_def validate_def list_ex_iff findOne_None split: if_splits)

lemma linkToParent_Inr:
  assumes "castOpt (if truthy (cb_parentId b) then cb_parentId b else None) = Inr po"
  shows "linkToParent db b c =
           Inr (case po of None \<Rightarrow> db
                | Some p \<Rightarrow> updateOne p (\<lambda>d. d\<lparr>subcategories := addToSet (subcategories d) (c_id c)\<rparr>) db)"
proof (cases "truthy (cb_parentId b)")
  case False
  with assms show ?thesis by (simp add: linkToParent_def castOpt_def)
next
  case True
  then obtain s where s: "cb_parentId b = Some s" by (auto simp: truthy_def split: option.splits)
  with assms True obtain p where p: "po = Some p" "castObjectId s = Inr p"
    using castOpt_Some by fastforce
  show ?thesis
    using True s p
    by (auto simp: linkToParent_def Category_findByIdAndUpdate_def updateOne_absent
             split: option.splits)
qed



lemma addToSet_distinct: "distinct xs \<Longrightarrow> distinct (addToSet xs x)"
  by (simp add: addToSet_def)




subsection \<open>Updating\<close>

lemma applyUpdate_frame:
  "c_id (applyUpdate now b c) = c_id c \<and> parentId (applyUpdate now b c) = parentId c
   \<and> subcategories (applyUpdate now b c) = subcategories c
   \<and> businessId (applyUpdate now b c) = businessId c
   \<and> tenantId (applyUpdate now b c) = tenantId c
   \<and> createdAt (applyUpdate now b c) = createdAt c
   \<and> updatedAt (applyUpdate now b c) = now"
  by (simp add: applyUpdate_def)

lemma applyUpdate_fields:
  "name (applyUpdate now b c) = (case ub_name b of None \<Rightarrow> name c | Some v \<Rightarrow> v)
   \<and> description (applyUpdate now b c)
       = (case ub_description b of None \<Rightarrow> description c | Some v \<Rightarrow> Some v)
   \<and> icon (applyUpdate now b c) = (case ub_icon b of None \<Rightarrow> icon c | Some v \<Rightarrow> Some v)
   \<and> color (applyUpdate now b c) = (case ub_color b of None \<Rightarrow> color c | Some v \<Rightarrow> Some v)
   \<and> isActive (applyUpdate now b c) = (case ub_isActive b of None \<Rightarrow> isActive c | Some v \<Rightarrow> v)"
  by (simp add: applyUpdate_def setField_def setOpt_def)

lemma update_existing:
  assumes "castObjectId ident = Inr i" and "findOne db i = Some c"
  shows "updateCategory now db ident b =
           (if nameTaken db i c b then (db, Response 500 (Failure ''Failed to update category''))
            else (updateOne i (applyUpdate now b) db, Response 200 (Document (applyUpdate now b c))))"
  using assms
  by (auto simp: updateCategory_def Category_findByIdAndUpdate_def nameTaken_def applyUpdate_fields
           split: option.splits)

text \<open>
  C5 (as amended). An update request on an existing category leaves every other
  document as it was and, in the document itself, never changes \<^verbatim>\<open>parentId\<close>,
  \<^verbatim>\<open>subcategories\<close>, \<^verbatim>\<open>businessId\<close>, \<^verbatim>\<open>tenantId\<close> (nor \<^verbatim>\<open>_id\<close> and \<^verbatim>\<open>createdAt\<close>); of
  \<^verbatim>\<open>name\<close>, \<^verbatim>\<open>description\<close>, \<^verbatim>\<open>icon\<close>, \<^verbatim>\<open>color\<close> and \<^verbatim>\<open>isActive\<close> only those the body
  supplies can change. When the update is applied (response 200) the supplied fields
  hold the supplied values and \<^verbatim>\<open>updatedAt\<close> is the clock reading of the request,
  whatever was stored; the one update the database refuses, a new name that another
  category holds, is answered with 500 and changes nothing. So \<^verbatim>\<open>updatedAt\<close> does not
  decrease when the clock reads no less than the stored value, as it does in every
  state reached under a clock that does not run backwards (\<open>reachable_updatedAt\<close>).
\<close>

theorem update_frame:
  assumes "castObjectId ident = Inr i" and "findOne db i = Some c"
    and "updateCategory now db ident b = (db', r)"
  shows "\<exists>c'. findOne db' i = Some c'
          \<and> c_id c' = c_id c \<and> parentId c' = parentId c \<and> subcategories c' = subcategories c
          \<and> businessId c' = businessId c \<and> tenantId c' = tenantId c \<and> createdAt c' = createdAt c
          \<and> (ub_name b = None \<longrightarrow> name c' = name c)
          \<and> (ub_description b = None \<longrightarrow> description c' = description c)
          \<and> (ub_icon b = None \<longrightarrow> icon c' = icon c)
          \<and> (ub_color b = None \<longrightarrow> color c' = color c)
          \<and> (ub_isActive b = None \<longrightarrow> isActive c' = isActive c)
          \<and> (updatedAt c \<le> now \<longrightarrow> updatedAt c \<le> updatedAt c')
          \<and> (\<forall>j. j \<noteq> i \<longrightarrow> findOne db' j = findOne db j)
          \<and> map c_id db' = map c_id db
          \<and> (if nameTaken db i c b
              then r = Response 500 (Failure ''Failed to update category'') \<and> db' = db
              else r = Response 200 (Document c') \<and> updatedAt c' = now
                 \<and> (\<forall>v. ub_name b = Some v \<longrightarrow> name c' = v)
                 \<and> (\<forall>v. ub_description b = Some v \<longrightarrow> description c' = Some v)
                 \<and> (\<forall>v. ub_icon b = Some v \<longrightarrow> icon c' = Some v)
                 \<and> (\<forall>v. ub_color b = Some v \<longrightarrow> color c' = Some v)
                 \<and> (\<forall>v. ub_isActive b = Some v \<longrightarrow> isActive c' = v))"
proof (cases "nameTaken db i c b")
  case True
  with update_existing [OF assms(1,2), of now b] assms(3)
  have "db' = db" "r = Response 500 (Failure ''Failed to update category'')" by simp_all
  with True assms(2) show ?thesis by simp
next
  case False
  let ?c = "applyUpdate now b c"
  from False update_existing [OF assms(1,2), of now b] assms(3)
  have db': "db' = updateOne i (applyUpdate now b) db" and r: "r = Response 200 (Document ?c)"
    by simp_all
  have 1: "findOne db' j = (if j = i then Some ?c else findOne db j)" for j
    unfolding db' using assms(2) by (simp add: findOne_updateOne applyUpdate_frame)
  have 2: "map c_id db' = map c_id db"
    unfolding db' by (simp add: map_id_updateOne applyUpdate_frame)
  show ?thesis
    using False r 1 2 applyUpdate_frame [of now b c] applyUpdate_fields [of now b c]
    by (intro exI [of _ ?c]) simp
qed

lemmas eval_update =
  updateCategory_def Category_findByIdAndUpdate_def sample_ids applyUpdate_def
  setField_def setOpt_def noUpdate_def foodDoc_def pizzaDoc_def

theorem update_frame_witness:
  "castObjectId sampleId2 = Inr 2 \<and> findOne [foodDoc, pizzaDoc] 2 = Some pizzaDoc
   \<and> updateCategory 3000 [foodDoc, pizzaDoc] sampleId2 (noUpdate\<lparr>ub_color := Some ''red''\<rparr>)
       = ([foodDoc, pizzaDoc\<lparr>color := Some ''red'', updatedAt := 3000\<rparr>],
          Response 200 (Document (pizzaDoc\<lparr>color := Some ''red'', updatedAt := 3000\<rparr>)))
   \<and> (\<exists>c'. findOne [foodDoc, pizzaDoc\<lparr>color := Some ''red'', updatedAt := 3000\<rparr>] 2 = Some c'
          \<and> parentId c' = parentId pizzaDoc \<and> subcategories c' = subcategories pizzaDoc
          \<and> businessId c' = businessId pizzaDoc \<and> tenantId c' = tenantId pizzaDoc
          \<and> name c' = name pizzaDoc \<and> isActive c' = isActive pizzaDoc
          \<and> updatedAt pizzaDoc \<le> updatedAt c')"
proof -
  let ?b = "noUpdate\<lparr>ub_color := Some ''red''\<rparr>"
  have h1: "castObjectId sampleId2 = Inr 2"
    by (rule sample_ids)
  have h2: "findOne [foodDoc, pizzaDoc] 2 = Some pizzaDoc"
    by (simp add: foodDoc_def pizzaDoc_def)
  have h3: "updatedAt pizzaDoc \<le> 3000"
    by (simp add: pizzaDoc_def)
  have ev: "updateCategory 3000 [foodDoc, pizzaDoc] sampleId2 ?b
       = ([foodDoc, pizzaDoc\<lparr>color := Some ''red'', updatedAt := 3000\<rparr>],
          Response 200 (Document (pizzaDoc\<lparr>color := Some ''red'', updatedAt := 3000\<rparr>)))"
    by (simp add: eval_update)
  have nb: "ub_name ?b = None" "ub_isActive ?b = None"
    by (simp_all add: noUpdate_def)
  from update_frame [OF h1 h2 ev] nb h1 h2 h3 ev show ?thesis
    by blast
qed

text \<open>
  The claim as written fails when the clock reads less than the stored \<^verbatim>\<open>updatedAt\<close>:
  the handler writes \<^verbatim>\<open>new Date()\<close> whatever is stored, and the value decreases.
\<close>

theorem update_clock_counterexample:
  "updateCategory 500 [foodDoc] sampleId1 noUpdate
     = ([foodDoc\<lparr>updatedAt := 500\<rparr>], Response 200 (Document (foodDoc\<lparr>updatedAt := 500\<rparr>)))
   \<and> updatedAt (foodDoc\<lparr>updatedAt := 500\<rparr>) < updatedAt foodDoc"
  by (simp add: eval_update)

subsection \<open>What one request does to a stored document\<close>

lemma list_all_updateOne:
  "list_all P db \<Longrightarrow> (\<And>c. P c \<Longrightarrow> P (f c)) \<Longrightarrow> list_all P (updateOne i f db)"
  by (induction db) auto

lemma create_db:
  "fst (createCategory now later nid db b) = db
   \<or> (\<exists>c. c_id c = nid \<and> updatedAt c = later \<and> findOne db nid = None
        \<and> (fst (createCategory now later nid db b) = db @ [c]
           \<or> (\<exists>p. fst (createCategory now later nid db b)
                 = updateOne p (\<lambda>d. d\<lparr>subcategories := addToSet (subcategories d) nid\<rparr>) (db @ [c]))))"
proof (cases "truthy (cb_name b)")
  case False
  then show ?thesis by (simp add: createCategory_def)
next
  case t: True
  show ?thesis
  proof (cases "newCategory now later nid (the (cb_name b)) b")
    case (Inl e)
    with t show ?thesis by (simp add: createCategory_def)
  next
    case c: (Inr c)
    note f = newCategory_fields [OF c]
    show ?thesis
    proof (cases "save_new db c")
      case (Inl e)
      with t c show ?thesis by (simp add: createCategory_def)
    next
      case s: (Inr db1)
      note s' = save_new_Inr [OF s]
      from f have l: "linkToParent db1 b c =
           Inr (case parentId c of None \<Rightarrow> db1
                | Some p \<Rightarrow> updateOne p (\<lambda>d. d\<lparr>subcategories := addToSet (subcategories d) (c_id c)\<rparr>) db1)"
        by (intro linkToParent_Inr) simp
      have "fst (createCategory now later nid db b) = (case parentId c of None \<Rightarrow> db1
                | Some p \<Rightarrow> updateOne p (\<lambda>d. d\<lparr>subcategories := addToSet (subcategories d) (c_id c)\<rparr>) db1)"
        using t c s l by (simp add: createCategory_def)
      with f s' show ?thesis
        by (cases "parentId c") auto
    qed
  qed
qed

lemma create_preserves:
  assumes "findOne db i = Some c"
  shows "\<exists>c'. findOne (fst (createCategory now later nid db b)) i = Some c'
           \<and> (\<exists>xs. c' = c\<lparr>subcategories := xs\<rparr>)"
proof -
  have a: "findOne (db @ [d]) i = Some c" for d
    using assms by (simp add: findOne_append)
  have triv: "\<exists>xs. c = c\<lparr>subcategories := xs\<rparr>"
    by (rule exI [of _ "subcategories c"]) simp
  from create_db [of now later nid db b] show ?thesis
  proof (elim disjE exE conjE)
    assume "fst (createCategory now later nid db b) = db"
    with assms triv show ?thesis by simp
  next
    fix d assume "fst (createCategory now later nid db b) = db @ [d]"
    with a triv show ?thesis by simp
  next
    fix d p
    assume "fst (createCategory now later nid db b)
              = updateOne p (\<lambda>d. d\<lparr>subcategories := addToSet (subcategories d) nid\<rparr>) (db @ [d])"
    then have "findOne (fst (createCategory now later nid db b)) i
                 = (if i = p then map_option (\<lambda>d. d\<lparr>subcategories := addToSet (subcategories d) nid\<rparr>)
                                    (findOne (db @ [d]) p)
                    else findOne (db @ [d]) i)"
      by (simp add: findOne_updateOne)
    with a [of d] triv show ?thesis by (cases "i = p") auto
  qed
qed

lemma delete_existing:
  assumes "castObjectId ident = Inr i" and "findOne db i = Some c"
  shows "deleteCategory db ident =
           (if name c = [] then (db, Response 500 (Failure ''Failed to delete category''))
            else (updateOne i (\<lambda>d. d\<lparr>isActive := False\<rparr>) db,
                  Response 200 (Message ''Category deleted successfully'')))"
  using assms findOne_Some [OF assms(2)]
  by (simp add: deleteCategory_def Category_findById_def save_loaded_def validate_def)

lemma delete_other:
  "castObjectId ident \<noteq> Inr i \<Longrightarrow> findOne (fst (deleteCategory db ident)) i = findOne db i"
  by (auto simp: deleteCategory_def Category_findById_def save_loaded_def validate_def
        findOne_updateOne dest: findOne_Some split: sum.splits option.splits)

lemma delete_preserves:
  assumes "findOne db i = Some c"
  shows "\<exists>c'. findOne (fst (deleteCategory db ident)) i = Some c'
           \<and> (c' = c \<or> c' = c\<lparr>isActive := False\<rparr>)"
proof (cases "castObjectId ident = Inr i")
  case True
  then show ?thesis
    using assms by (simp add: delete_existing findOne_updateOne)
next
  case False
  then show ?thesis
    using assms by (simp add: delete_other)
qed

lemma update_other:
  "castObjectId ident \<noteq> Inr i \<Longrightarrow> findOne (fst (updateCategory now db ident b)) i = findOne db i"
  by (auto simp: updateCategory_def Category_findByIdAndUpdate_def
        findOne_updateOne applyUpdate_frame split: sum.splits option.splits)

lemma update_preserves:
  assumes "findOne db i = Some c"
  shows "\<exists>c'. findOne (fst (updateCategory now db ident b)) i = Some c'
           \<and> (c' = c \<or> castObjectId ident = Inr i \<and> c' = applyUpdate now b c)"
proof (cases "castObjectId ident = Inr i")
  case True
  then show ?thesis
    using assms by (simp add: update_existing findOne_updateOne applyUpdate_frame)
next
  case False
  then show ?thesis
    using assms by (simp add: update_other)
qed


lemma handle_createdAt:
  assumes "findOne db i = Some c"
  shows "\<exists>c'. findOne (fst (handle now later nid r db)) i = Some c' \<and> createdAt c' = createdAt c"
proof (cases r)
  case (CreateCategory b)
  with create_preserves [OF assms, of now later nid b] show ?thesis by auto
next
  case (UpdateCategory ident b)
  with update_preserves [OF assms, of now ident b] show ?thesis
    by (auto simp: applyUpdate_frame)
next
  case (DeleteCategory ident)
  with delete_preserves [OF assms, of ident] show ?thesis by auto
qed (use assms in auto)

text \<open>
  Under a clock that does not run backwards, no stored \<^verbatim>\<open>updatedAt\<close> is ever later than
  the time of the last request.
\<close>

lemma handle_stamped:
  assumes "stamped t db" and "t \<le> now" and "now \<le> later"
  shows "stamped later (fst (handle now later nid r db))"
proof -
  have up: "stamped later db"
    using assms by (auto simp: stamped_def list_all_iff)
  show ?thesis
  proof (cases r)
    case (CreateCategory b)
    from create_db [of now later nid db b] up show ?thesis
      unfolding CreateCategory handle.simps stamped_def
      by (elim disjE exE conjE) (auto intro!: list_all_updateOne)
  next
    case (UpdateCategory ident b)
    have "stamped later (updateOne i (applyUpdate now b) db)" for i
      using up unfolding stamped_def
      by (rule list_all_updateOne) (simp add: applyUpdate_frame assms(3))
    then show ?thesis
      using up UpdateCategory
      by (auto simp: updateCategory_def Category_findByIdAndUpdate_def split: sum.splits option.splits)
  next
    case (DeleteCategory ident)
    have "stamped later (updateOne i (\<lambda>d. d\<lparr>isActive := False\<rparr>) db)" for i
      using up unfolding stamped_def
      by (rule list_all_updateOne) simp
    then show ?thesis
      using up DeleteCategory
      by (auto simp: deleteCategory_def Category_findById_def save_loaded_def validate_def
          split: sum.splits option.splits)
  qed (use up in auto)
qed

lemma run_stamped:
  "ascending t es \<Longrightarrow> stamped t db \<Longrightarrow> stamped (lastTime t es) (run es db)"
proof (induction es arbitrary: t db)
  case Nil
  then show ?case by simp
next
  case (Cons e es)
  obtain now later nid r where e: "e = (now, later, nid, r)" by (cases e)
  with Cons.prems have t: "t \<le> now" "now \<le> later" and a: "ascending later es" by simp_all
  from handle_stamped [OF Cons.prems(2) t, of nid r]
  have "stamped later (fst (handle now later nid r db))" .
  with Cons.IH [OF a this] e show ?case by simp
qed

lemma reachable_updatedAt:
  assumes "ascending 0 es" and "lastTime 0 es \<le> now" and "findOne (run es []) i = Some c"
  shows "updatedAt c \<le> now"
proof -
  have "stamped (lastTime 0 es) (run es [])"
    using assms(1) by (intro run_stamped) (simp_all add: stamped_def)
  with findOne_Some [OF assms(3)] have "updatedAt c \<le> lastTime 0 es"
    by (simp add: stamped_def list_all_iff)
  with assms(2) show ?thesis by simp
qed

lemmas eval_handlers =
  createCategory_def newCategory_def save_new_def validate_def linkToParent_def
  updateCategory_def Category_findByIdAndUpdate_def applyUpdate_def setField_def setOpt_def
  deleteCategory_def Category_findById_def save_loaded_def
  castOpt_def truthy_def addToSet_def sample_ids sample_nonempty
  noUpdate_def foodBody_def pizzaBody_def foodDoc_def pizzaDoc_def

subsection \<open>Soft-deleting\<close>




subsection \<open>Timestamps\<close>

text \<open>
  C7. The claim asks that every mutation refreshes \<^verbatim>\<open>updatedAt\<close>. The soft-delete
  handler writes \<^verbatim>\<open>isActive\<close> only: a category created at time 1000 and soft-deleted
  by a request served at time 2000 still has \<^verbatim>\<open>updatedAt = 1000\<close>.
\<close>

theorem delete_keeps_updatedAt:
  "handle 2000 2000 2 (DeleteCategory sampleId1) (run [(1000, 1000, 1, CreateCategory foodBody)] [])
     = ([foodDoc\<lparr>isActive := False\<rparr>], Response 200 (Message ''Category deleted successfully''))
   \<and> updatedAt (foodDoc\<lparr>isActive := False\<rparr>) = 1000"
  by (simp add: eval_handlers)

subsection \<open>The active flag over time\<close>




end
